theory Spec2Isabelle
  imports Complex_Main "HOL-Library.Sublist"
begin

section \<open>Strings of the client\<close>

text \<open>
  A JavaScript string is a sequence of UTF-16 code units. It is modelled as a
  \<^typ>\<open>string\<close> whose characters are the code units \<open>0x00 .. 0xFF\<close> (Latin-1);
  code units above \<open>0xFF\<close> are outside the model.
\<close>

text \<open>\<open>s.startsWith(p)\<close>\<close>

fun startsWith :: "string \<Rightarrow> string \<Rightarrow> bool" where
  "startsWith s [] = True"
| "startsWith [] (p # ps) = False"
| "startsWith (c # cs) (p # ps) = (c = p \<and> startsWith cs ps)"

text \<open>\<open>s.includes(t)\<close>: \<open>t\<close> occurs in \<open>s\<close> as a contiguous substring.\<close>

fun includes_str :: "string \<Rightarrow> string \<Rightarrow> bool" where
  "includes_str [] t = (t = [])"
| "includes_str (c # cs) t = (startsWith (c # cs) t \<or> includes_str cs t)"

text \<open>
  \<open>s.toLowerCase()\<close> on Latin-1: \<open>A .. Z\<close> and \<open>0xC0 .. 0xDE\<close> without the
  multiplication sign \<open>0xD7\<close> move up by 32; every other code unit is kept.
\<close>

definition lower_char :: "char \<Rightarrow> char" where
  "lower_char c =
     (let n = (of_char c :: nat)
      in if (65 \<le> n \<and> n \<le> 90) \<or> (192 \<le> n \<and> n \<le> 222 \<and> n \<noteq> 215)
         then char_of (n + 32) else c)"

definition toLowerCase :: "string \<Rightarrow> string" where
  "toLowerCase s = map lower_char s"

text \<open>
  \<open>s.trim()\<close> removes white space and line terminators from both ends. Among the
  code units of the model these are TAB, LF, VT, FF, CR, SPACE and NBSP.
\<close>

definition is_white_space :: "char \<Rightarrow> bool" where
  "is_white_space c = ((of_char c :: nat) \<in> {9, 10, 11, 12, 13, 32, 160})"

definition trim :: "string \<Rightarrow> string" where
  "trim s = rev (dropWhile is_white_space (rev (dropWhile is_white_space s)))"

text \<open>\<open>s.split(sep)\<close> for a separator of one code unit.\<close>

fun split_str :: "string \<Rightarrow> char \<Rightarrow> string list" where
  "split_str [] sep = [[]]"
| "split_str (c # cs) sep =
     (if c = sep then [] # split_str cs sep
      else (case split_str cs sep of p # ps \<Rightarrow> (c # p) # ps | [] \<Rightarrow> [[c]]))"

text \<open>
  \<open>parts[i]\<close> used as a string argument: an index out of range reads \<open>undefined\<close>,
  which a string method converts to the text \<open>undefined\<close>.
\<close>

definition at_index :: "string list \<Rightarrow> int \<Rightarrow> string" where
  "at_index parts i =
     (if 0 \<le> i \<and> i < int (length parts) then parts ! nat i else ''undefined'')"

text \<open>A non-negative integer in a template literal: its decimal digits.\<close>

definition digit_char :: "nat \<Rightarrow> char" where
  "digit_char d = ''0123456789'' ! (d mod 10)"

fun dec :: "nat \<Rightarrow> string" where
  "dec n = (if n < 10 then [digit_char n] else dec (n div 10) @ [digit_char (n mod 10)])"

declare dec.simps [simp del]

text \<open>An integer in a template literal.\<close>

definition show_int :: "int \<Rightarrow> string" where
  "show_int i = (if i < 0 then CHR ''-'' # dec (nat (- i)) else dec (nat i))"

text \<open>\<open>x || d\<close> for a string \<open>x\<close> that may be \<open>undefined\<close> or \<open>null\<close>: the empty string is falsy.\<close>

fun or_else :: "string option \<Rightarrow> string \<Rightarrow> string" where
  "or_else None d = d"
| "or_else (Some x) d = (if x = [] then d else x)"

section \<open>Data model\<close>

text \<open>\<open>UploadItem\<close>; \<open>_id\<close> and \<open>size\<close> are renamed \<open>id_item\<close> and \<open>size_item\<close>.\<close>

record UploadItem =
  id_item :: string
  originalName :: string
  mimeType :: string
  size_item :: nat
  storageFilename :: string
  transcription :: "string option"
  createdAt :: string
  url :: string

text \<open>
  A browser \<open>File\<close> with its properties \<open>name\<close>, \<open>type\<close> (a string, as the type
  \<open>File\<close> declares it) and \<open>size\<close> (a byte count); \<open>file_ref\<close> is the identity of the
  object, which is what \<open>===\<close> compares.
\<close>

record File =
  file_ref :: nat
  file_name :: string
  file_type :: string
  file_size :: nat

section \<open>Validation\<close>

definition ALLOWED_AUDIO_TYPES :: "string list" where
  "ALLOWED_AUDIO_TYPES =
     [''audio/webm'', ''audio/mp3'', ''audio/mpeg'', ''audio/wav'',
      ''audio/ogg'', ''audio/mp4'', ''audio/x-wav'', ''audio/flac'']"

definition MAX_FILE_SIZE_MB :: nat where
  "MAX_FILE_SIZE_MB = 25"

definition MAX_FILE_SIZE_BYTES :: nat where
  "MAX_FILE_SIZE_BYTES = MAX_FILE_SIZE_MB * 1024 * 1024"

text \<open>The result of \<open>isValidAudioFile\<close>: \<open>{ ok: true }\<close> or \<open>{ ok: false; message }\<close>.\<close>

datatype validation = Ok | NotOk string

text \<open>\<open>const type = file.type?.toLowerCase() || ''\<close>\<close>

definition type_of_file :: "File \<Rightarrow> string" where
  "type_of_file f = or_else (Some (toLowerCase (file_type f))) ''''"

text \<open>\<open>type.startsWith('audio/') || ALLOWED_AUDIO_TYPES.some((t) => type.includes(t.split('/')[1]))\<close>\<close>

definition isAllowed :: "string \<Rightarrow> bool" where
  "isAllowed ty =
     (startsWith ty ''audio/''
      \<or> list_ex (\<lambda>t. includes_str ty (at_index (split_str t CHR ''/'') 1)) ALLOWED_AUDIO_TYPES)"

definition isValidAudioFile :: "File \<Rightarrow> validation" where
  "isValidAudioFile f =
     (if \<not> isAllowed (type_of_file f) then
        NotOk (''Invalid file type: '' @ or_else (Some (file_type f)) ''unknown''
               @ ''. Use audio files (e.g. MP3, WAV, WebM).'')
      else if file_size f > MAX_FILE_SIZE_BYTES then
        NotOk (''File too large. Max '' @ dec MAX_FILE_SIZE_MB @ '' MB.'')
      else Ok)"

section \<open>Network and browser effects\<close>

text \<open>
  What a \<open>catch (e)\<close> receives: an \<open>Error\<close> object with its message, or any other
  value. \<open>message_or e d\<close> is \<open>e instanceof Error ? e.message : d\<close>.
\<close>

datatype thrown = Error string | NonError

fun message_or :: "thrown \<Rightarrow> string \<Rightarrow> string" where
  "message_or (Error m) d = m"
| "message_or NonError d = d"

text \<open>
  A \<open>Response\<close> as the client reads it: the numeric \<open>status\<close>, and the JSON body
  under the two types the code casts it to. \<open>json_error\<close> is the \<open>error\<close> property
  of \<open>await res.json().catch(() => ({}))\<close> under \<open>{ error?: string }\<close>, which is
  \<open>None\<close> when the body does not parse or has no such property. \<open>json_items\<close> is
  the outcome of \<open>await res.json()\<close> under \<open>UploadItem[]\<close>, \<open>Inl\<close> when it rejects.
\<close>

record response =
  status :: nat
  json_error :: "string option"
  json_items :: "thrown + UploadItem list"

text \<open>\<open>res.ok\<close>: the status is in the range 200 to 299.\<close>

definition ok :: "response \<Rightarrow> bool" where
  "ok res = (200 \<le> status res \<and> status res \<le> 299)"

text \<open>The outcome of \<open>await fetch(...)\<close>: the promise rejects, or resolves to a response.\<close>

datatype fetch_result = Rejects thrown | Resolves response

datatype http_method = GET | POST | PATCH | DELETE

datatype request_body =
    NoBody
  | FormData "(string \<times> File) list"
  | JSON_stringify "(string \<times> string) list"

text \<open>
  The effects an operation has outside the component state, in the order they happen:
  a \<open>fetch\<close> with its method, URL, headers and body, and the two calls on \<open>URL\<close>.
\<close>

datatype effect =
    Fetch http_method string "(string \<times> string) list" request_body
  | RevokeObjectURL string
  | CreateObjectURL

section \<open>Component state\<close>

record app_state =
  uploads :: "UploadItem list"
  isLoadingList :: bool
  isUploading :: bool
  error :: "string option"
  isRecording :: bool
  recordingUrl :: "string option"
  recordedFile :: "File option"
  deletingId :: "string option"
  editingId :: "string option"
  editingName :: string

text \<open>The initial values given to \<open>useState\<close>.\<close>

definition initial_state :: app_state where
  "initial_state =
     \<lparr>uploads = [], isLoadingList = True, isUploading = False, error = None,
      isRecording = False, recordingUrl = None, recordedFile = None,
      deletingId = None, editingId = None, editingName = ''''\<rparr>"

text \<open>
  The shape shared by the four operations: the awaited \<open>fetch\<close> may reject; a
  response that is not \<open>ok\<close> throws
  \<open>new Error(data?.error || `<generic> (${res.status})`)\<close>.
\<close>

definition checked :: "string \<Rightarrow> fetch_result \<Rightarrow> thrown + response" where
  "checked generic r =
     (case r of
        Rejects e \<Rightarrow> Inl e
      | Resolves res \<Rightarrow>
          if \<not> ok res
          then Inl (Error (or_else (json_error res)
                             (generic @ '' ('' @ dec (status res) @ '')'')))
          else Inr res)"

section \<open>The operations of the newer component (\<open>src/unnamed/part_000\<close>)\<close>

text \<open>
  Every operation takes the base address \<open>api\<close> (\<open>API_BASE\<close>), the outcome of each
  \<open>fetch\<close> it may await and the state it starts from; it returns the state it leaves
  and the effects it had.
\<close>

definition fetchUploads :: "string \<Rightarrow> fetch_result \<Rightarrow> app_state \<Rightarrow> app_state \<times> effect list" where
  "fetchUploads api r s =
     (let s1 = s\<lparr>isLoadingList := True, error := None\<rparr>;
          s2 = (case checked ''Failed to fetch'' r of
                  Inl e \<Rightarrow> s1\<lparr>error := Some (message_or e ''Failed to fetch uploads'')\<rparr>
                | Inr res \<Rightarrow>
                    (case json_items res of
                       Inl e \<Rightarrow> s1\<lparr>error := Some (message_or e ''Failed to fetch uploads'')\<rparr>
                     | Inr data \<Rightarrow> s1\<lparr>uploads := data\<rparr>))
      in (s2\<lparr>isLoadingList := False\<rparr>, [Fetch GET (api @ ''/api/uploads'') [] NoBody]))"

text \<open>
  The block of \<open>uploadFile\<close> that runs after a successful upload and refresh:
  \<open>recordedFile\<close> and \<open>recordingUrl\<close> are the values of the state \<open>s0\<close> the
  function was called in; \<open>if (recordingUrl)\<close> takes \<open>null\<close> and the empty string as false.
\<close>

definition clear_preview :: "app_state \<Rightarrow> File \<Rightarrow> app_state \<times> effect list \<Rightarrow> app_state \<times> effect list" where
  "clear_preview s0 f se =
     (case recordedFile s0 of
        None \<Rightarrow> se
      | Some rf \<Rightarrow>
          if file_ref f = file_ref rf
          then (fst se\<lparr>recordingUrl := None, recordedFile := None\<rparr>,
                snd se @ (case recordingUrl s0 of
                            None \<Rightarrow> []
                          | Some u \<Rightarrow> if u \<noteq> [] then [RevokeObjectURL u] else []))
          else se)"

definition uploadFile ::
  "string \<Rightarrow> File \<Rightarrow> fetch_result \<Rightarrow> fetch_result \<Rightarrow> app_state \<Rightarrow> app_state \<times> effect list" where
  "uploadFile api f post_result get_result s =
     (case isValidAudioFile f of
        NotOk message \<Rightarrow> (s\<lparr>error := Some message\<rparr>, [])
      | Ok \<Rightarrow>
          (let s1 = s\<lparr>isUploading := True, error := None\<rparr>;
               post = Fetch POST (api @ ''/api/uploads'') [] (FormData [(''audio'', f)]);
               se = (case checked ''Upload failed'' post_result of
                       Inl e \<Rightarrow> (s1\<lparr>error := Some (message_or e ''Upload failed'')\<rparr>, [])
                     | Inr res \<Rightarrow> clear_preview s f (fetchUploads api get_result s1))
           in (fst se\<lparr>isUploading := False\<rparr>, post # snd se)))"

definition updateName :: "string \<Rightarrow> string \<Rightarrow> string \<Rightarrow> fetch_result \<Rightarrow> app_state \<Rightarrow> app_state \<times> effect list" where
  "updateName api ident newName r s =
     (let trimmed = trim newName
      in if trimmed = [] then (s, [])
         else
           (let s1 = s\<lparr>error := None\<rparr>;
                patch = Fetch PATCH (api @ ''/api/uploads/'' @ ident)
                          [(''Content-Type'', ''application/json'')]
                          (JSON_stringify [(''originalName'', trimmed)])
            in (case checked ''Update failed'' r of
                  Inl e \<Rightarrow> (s1\<lparr>error := Some (message_or e ''Failed to update name'')\<rparr>, [patch])
                | Inr res \<Rightarrow>
                    (s1\<lparr>uploads := map (\<lambda>u. if id_item u = ident
                                             then u\<lparr>originalName := trimmed\<rparr> else u)
                                      (uploads s1),
                        editingId := None, editingName := ''''\<rparr>, [patch]))))"

definition deleteUpload :: "string \<Rightarrow> string \<Rightarrow> fetch_result \<Rightarrow> app_state \<Rightarrow> app_state \<times> effect list" where
  "deleteUpload api ident r s =
     (let s1 = s\<lparr>deletingId := Some ident, error := None\<rparr>;
          s2 = (case checked ''Delete failed'' r of
                  Inl e \<Rightarrow> s1\<lparr>error := Some (message_or e ''Failed to delete'')\<rparr>
                | Inr res \<Rightarrow> s1\<lparr>uploads := filter (\<lambda>u. id_item u \<noteq> ident) (uploads s1)\<rparr>)
      in (s2\<lparr>deletingId := None\<rparr>, [Fetch DELETE (api @ ''/api/uploads/'' @ ident) [] NoBody]))"

section \<open>The recorder's \<open>onstop\<close> handler\<close>

text \<open>
  A \<open>Blob\<close> by its size and type. The constructor keeps a type of printable ASCII
  characters in lower case and replaces any other type by the empty string (File API).
\<close>

record Blob =
  blob_size :: nat
  blob_type :: string

definition printable :: "char \<Rightarrow> bool" where
  "printable c = (32 \<le> (of_char c :: nat) \<and> (of_char c :: nat) \<le> 126)"

definition new_Blob :: "Blob list \<Rightarrow> string \<Rightarrow> Blob" where
  "new_Blob parts ty =
     \<lparr>blob_size = sum_list (map blob_size parts),
      blob_type = (if list_all printable ty then toLowerCase ty else '''')\<rparr>"

definition new_File :: "nat \<Rightarrow> Blob list \<Rightarrow> string \<Rightarrow> string \<Rightarrow> File" where
  "new_File r parts name ty =
     \<lparr>file_ref = r, file_name = name,
      file_type = blob_type (new_Blob parts ty),
      file_size = blob_size (new_Blob parts ty)\<rparr>"

text \<open>\<open>blob.type.includes('ogg') ? 'ogg' : blob.type.includes('wav') ? 'wav' : 'webm'\<close>\<close>

definition ext_of_type :: "string \<Rightarrow> string" where
  "ext_of_type ty =
     (if includes_str ty ''ogg'' then ''ogg''
      else if includes_str ty ''wav'' then ''wav'' else ''webm'')"

text \<open>
  The handler of \<open>src/unnamed/part_000\<close>. \<open>closure_url\<close> is the \<open>recordingUrl\<close> that
  \<open>startRecording\<close> saw, \<open>chunks\<close> is \<open>chunksRef.current\<close>, \<open>mime\<close> is
  \<open>recorder.mimeType\<close>, \<open>now\<close> is \<open>Date.now()\<close>, \<open>new_url\<close> is what
  \<open>URL.createObjectURL\<close> returns and \<open>r\<close> is the identity of the new \<open>File\<close>.
\<close>

definition onstop ::
  "string option \<Rightarrow> Blob list \<Rightarrow> string \<Rightarrow> int \<Rightarrow> string \<Rightarrow> nat \<Rightarrow> app_state
     \<Rightarrow> app_state \<times> effect list" where
  "onstop closure_url chunks mime now new_url r s =
     (let blob = new_Blob chunks (or_else (Some mime) ''audio/webm'');
          revoke = (case closure_url of
                      None \<Rightarrow> []
                    | Some u \<Rightarrow> if u \<noteq> [] then [RevokeObjectURL u] else []);
          ext = ext_of_type (blob_type blob);
          recorded = new_File r [blob] (''recording-'' @ show_int now @ ''.'' @ ext)
                       (blob_type blob)
      in (s\<lparr>recordingUrl := Some new_url, recordedFile := Some recorded\<rparr>,
          revoke @ [CreateObjectURL]))"

section \<open>The older component (\<open>src/src/App.tsx\<close>)\<close>

text \<open>
  Its \<open>fetchUploads\<close> requests a fixed path and does not read the body of a failed
  response; its \<open>onstop\<close> does not revoke the earlier preview. It has no
  \<open>deletingId\<close>, \<open>editingId\<close> and \<open>editingName\<close>, which stay as they are here.
\<close>

definition App_fetchUploads :: "fetch_result \<Rightarrow> app_state \<Rightarrow> app_state \<times> effect list" where
  "App_fetchUploads r s =
     (let s1 = s\<lparr>isLoadingList := True, error := None\<rparr>;
          caught = (\<lambda>e. s1\<lparr>error := Some (message_or e ''Failed to fetch uploads'')\<rparr>);
          s2 = (case r of
                  Rejects e \<Rightarrow> caught e
                | Resolves res \<Rightarrow>
                    if \<not> ok res
                    then caught (Error (''Failed to fetch uploads ('' @ dec (status res) @ '')''))
                    else (case json_items res of
                            Inl e \<Rightarrow> caught e
                          | Inr data \<Rightarrow> s1\<lparr>uploads := data\<rparr>))
      in (s2\<lparr>isLoadingList := False\<rparr>, [Fetch GET ''/api/uploads'' [] NoBody]))"

definition App_onstop ::
  "Blob list \<Rightarrow> string \<Rightarrow> int \<Rightarrow> string \<Rightarrow> nat \<Rightarrow> app_state \<Rightarrow> app_state \<times> effect list" where
  "App_onstop chunks mime now new_url r s =
     (let blob = new_Blob chunks (or_else (Some mime) ''audio/webm'');
          ext = ext_of_type (blob_type blob);
          recorded = new_File r [blob] (''recording-'' @ show_int now @ ''.'' @ ext)
                       (blob_type blob)
      in (s\<lparr>recordingUrl := Some new_url, recordedFile := Some recorded\<rparr>,
          [CreateObjectURL]))"

section \<open>\<open>formatBytes\<close> (the same text in both components)\<close>

text \<open>
  A JavaScript \<open>number\<close>: not-a-number, the two infinities, or a finite value. The
  arithmetic on finite values is exact here: \<open>Math.log\<close>, the division and the power
  are those of the real numbers, with no rounding to a double.
\<close>

datatype number = NaN | PosInfinity | NegInfinity | Finite real

text \<open>
  \<open>x.toFixed(f)\<close> for a finite \<open>x\<close>: the sign, then the integer \<open>n\<close> nearest to
  \<open>|x| * 10^f\<close> (the larger one on a tie) in decimal, padded with zeros to more than
  \<open>f\<close> digits, with a point before the last \<open>f\<close> digits. From \<open>10^21\<close> on the result
  is that of the number's \<open>toString\<close>, which is taken as the parameter \<open>to_string\<close>.
\<close>

definition toFixed :: "(real \<Rightarrow> string) \<Rightarrow> real \<Rightarrow> nat \<Rightarrow> string" where
  "toFixed to_string x f =
     (let sign = (if x < 0 then ''-'' else ''''); a = \<bar>x\<bar>
      in if a \<ge> 10 ^ 21 then sign @ to_string a
         else
           (let n = nat \<lfloor>a * 10 ^ f + 1 / 2\<rfloor>;
                m = dec n;
                m' = (if f \<noteq> 0 \<and> length m \<le> f then replicate (f + 1 - length m) CHR ''0'' @ m else m)
            in if f = 0 then sign @ m'
               else sign @ take (length m' - f) m' @ ''.'' @ drop (length m' - f) m'))"

definition formatBytes :: "(real \<Rightarrow> string) \<Rightarrow> number \<Rightarrow> string" where
  "formatBytes to_string bytes =
     (case bytes of
        Finite x \<Rightarrow>
          if x \<le> 0 then ''0 B''
          else
            (let units = [''B'', ''KB'', ''MB'', ''GB''];
                 idx = min \<lfloor>ln x / ln 1024\<rfloor> (int (length units) - 1);
                 val = x / (1024 powi idx)
             in toFixed to_string val (if idx = 0 then 0 else 1) @ '' '' @ at_index units idx)
      | _ \<Rightarrow> ''0 B'')"

section \<open>Names used in the statements\<close>

text \<open>
  The subtype tokens that \<open>isValidAudioFile\<close> looks for: the part after the slash of
  each entry of \<open>ALLOWED_AUDIO_TYPES\<close>.
\<close>

definition audio_tokens :: "string list" where
  "audio_tokens = map (\<lambda>t. at_index (split_str t CHR ''/'') 1) ALLOWED_AUDIO_TYPES"

text \<open>
  The File API reports the \<open>type\<close> of a \<open>File\<close> in ASCII lower case: the files that
  the file input and \<open>new File\<close> hand to \<open>uploadFile\<close> have a type that
  \<open>toLowerCase\<close> leaves as it is.
\<close>

definition lower_case_type :: "File \<Rightarrow> bool" where
  "lower_case_type f = (toLowerCase (file_type f) = file_type f)"

subsection \<open>Concrete inputs\<close>

definition text_file :: File where
  "text_file =
     \<lparr>file_ref = 2, file_name = ''notes.txt'', file_type = ''text/plain'', file_size = 120\<rparr>"

definition created :: fetch_result where
  "created = Resolves \<lparr>status = 201, json_error = None, json_items = Inr []\<rparr>"

definition listed :: "UploadItem list \<Rightarrow> fetch_result" where
  "listed items = Resolves \<lparr>status = 200, json_error = None, json_items = Inr items\<rparr>"

definition big_text_file :: File where
  "big_text_file =
     \<lparr>file_ref = 3, file_name = ''dump.txt'', file_type = ''text/plain'', file_size = 31457280\<rparr>"

definition big_wav_file :: File where
  "big_wav_file =
     \<lparr>file_ref = 4, file_name = ''take.wav'', file_type = ''audio/wav'', file_size = 31457280\<rparr>"

definition video_file :: "string \<Rightarrow> File" where
  "video_file ty = \<lparr>file_ref = 5, file_name = ''clip'', file_type = ty, file_size = 4096\<rparr>"

definition item_a :: UploadItem where
  "item_a =
     \<lparr>id_item = ''a1'', originalName = ''memo.wav'', mimeType = ''audio/wav'', size_item = 2048,
      storageFilename = ''1700000000000-memo.wav'', transcription = None,
      createdAt = ''2024-01-01T10:00:00.000Z'', url = ''/uploads/1700000000000-memo.wav''\<rparr>"

definition item_b :: UploadItem where
  "item_b =
     \<lparr>id_item = ''b2'', originalName = ''talk.ogg'', mimeType = ''audio/ogg'', size_item = 512,
      storageFilename = ''1700000000001-talk.ogg'', transcription = Some ''hello'',
      createdAt = ''2024-01-02T10:00:00.000Z'', url = ''/uploads/1700000000001-talk.ogg''\<rparr>"

text \<open>A state that holds two records, with the first one being renamed.\<close>

definition two_items :: app_state where
  "two_items =
     initial_state\<lparr>uploads := [item_a, item_b], isLoadingList := False,
                   editingId := Some ''a1'', editingName := ''memo.wav''\<rparr>"

definition no_content :: fetch_result where
  "no_content = Resolves \<lparr>status = 200, json_error = None, json_items = Inr []\<rparr>"

subsection \<open>Failing requests\<close>

text \<open>A request fails when the \<open>fetch\<close> throws or the response status is not 2xx.\<close>

fun request_fails :: "fetch_result \<Rightarrow> bool" where
  "request_fails (Rejects e) = True"
| "request_fails (Resolves res) = (\<not> ok res)"

text \<open>
  The banner of a failed request as the amended claim C8 words it, to be compared with
  what the four operations store: the message of the thrown \<open>Error\<close>, or \<open>fallback\<close>
  for any other thrown value; for a response, the \<open>error\<close> text of the body when there
  is one and it is not empty, and otherwise \<open>generic\<close> followed by the status in brackets.
\<close>

fun failure_text :: "string \<Rightarrow> string \<Rightarrow> fetch_result \<Rightarrow> string" where
  "failure_text generic fallback (Rejects (Error m)) = m"
| "failure_text generic fallback (Rejects NonError) = fallback"
| "failure_text generic fallback (Resolves res) =
     (case json_error res of
        None \<Rightarrow> generic @ '' ('' @ dec (status res) @ '')''
      | Some m \<Rightarrow> if m = [] then generic @ '' ('' @ dec (status res) @ '')'' else m)"

text \<open>
  The banner of a failed list request in the older component, which does not read the
  body: the message of the thrown \<open>Error\<close>, or the fixed text for any other thrown
  value; for a response, the fixed text followed by the status in brackets.
\<close>

fun App_failure_text :: "fetch_result \<Rightarrow> string" where
  "App_failure_text (Rejects (Error m)) = m"
| "App_failure_text (Rejects NonError) = ''Failed to fetch uploads''"
| "App_failure_text (Resolves res) = ''Failed to fetch uploads ('' @ dec (status res) @ '')''"

text \<open>The decimal digits that occur in a text.\<close>

definition digits_in :: "string \<Rightarrow> string" where
  "digits_in s = filter (\<lambda>c. c \<in> set ''0123456789'') s"

definition network_down :: fetch_result where
  "network_down = Rejects (Error ''NetworkError when attempting to fetch resource.'')"

definition server_error :: "string option \<Rightarrow> fetch_result" where
  "server_error e = Resolves \<lparr>status = 500, json_error = e, json_items = Inl (Error ''Unexpected token'')\<rparr>"

definition small_wav_file :: File where
  "small_wav_file =
     \<lparr>file_ref = 6, file_name = ''test.wav'', file_type = ''audio/wav'', file_size = 2097152\<rparr>"

section \<open>Facts about the string functions\<close>

lemma startsWith_prefix: "startsWith s p = prefix p s"
  by (induction s p rule: startsWith.induct) auto

lemma includes_str_sublist: "includes_str s t = sublist t s"
proof (induction s)
  case Nil
  show ?case by simp
next
  case (Cons c cs)
  show ?case
    by (simp add: Cons.IH startsWith_prefix sublist_Cons_right del: startsWith.simps)
qed

lemma audio_tokens_eq:
  "audio_tokens = [''webm'', ''mp3'', ''mpeg'', ''wav'', ''ogg'', ''mp4'', ''x-wav'', ''flac'']"
  by (simp add: audio_tokens_def ALLOWED_AUDIO_TYPES_def at_index_def)

lemma isAllowed_tokens:
  "isAllowed ty = (startsWith ty ''audio/'' \<or> (\<exists>tok \<in> set audio_tokens. includes_str ty tok))"
  by (simp add: isAllowed_def audio_tokens_def list_ex_iff)

lemma dec_25: "dec MAX_FILE_SIZE_MB = ''25''"
  by (simp add: MAX_FILE_SIZE_MB_def dec.simps digit_char_def)

lemma max_bytes: "MAX_FILE_SIZE_BYTES = 26214400"
  by (simp add: MAX_FILE_SIZE_BYTES_def MAX_FILE_SIZE_MB_def)

lemma type_of_file_eq: "type_of_file f = toLowerCase (file_type f)"
  by (simp add: type_of_file_def toLowerCase_def)

section \<open>Reading the outcome of a request\<close>

lemma checked_Rejects: "checked g (Rejects e) = Inl e"
  by (simp add: checked_def)

lemma checked_not_ok:
  "\<not> ok res \<Longrightarrow>
   checked g (Resolves res)
     = Inl (Error (or_else (json_error res) (g @ '' ('' @ dec (status res) @ '')'')))"
  by (simp add: checked_def)

lemma checked_ok: "ok res \<Longrightarrow> checked g (Resolves res) = Inr res"
  by (simp add: checked_def)

section \<open>Upload: local validation\<close>

lemma uploadFile_rejected:
  "isValidAudioFile f = NotOk m \<Longrightarrow> uploadFile api f p g s = (s\<lparr>error := Some m\<rparr>, [])"
  by (simp add: uploadFile_def)

lemma uploadFile_accepted:
  "isValidAudioFile f = Ok \<Longrightarrow>
   \<exists>rest. snd (uploadFile api f p g s)
     = Fetch POST (api @ ''/api/uploads'') [] (FormData [(''audio'', f)]) # rest"
  by (simp add: uploadFile_def Let_def)

lemma lower_text_plain: "toLowerCase ''text/plain'' = ''text/plain''"
  by code_simp

lemma lower_audio_wav: "toLowerCase ''audio/wav'' = ''audio/wav''"
  by code_simp

lemma allowed_audio_wav: "isAllowed ''audio/wav''"
  by code_simp

lemma not_allowed_text_plain: "\<not> isAllowed ''text/plain''"
  by code_simp

lemma isValidAudioFile_too_large:
  "isAllowed (toLowerCase (file_type f)) \<Longrightarrow> file_size f > 25 * 1024 * 1024 \<Longrightarrow>
   isValidAudioFile f = NotOk ''File too large. Max 25 MB.''"
  by (simp add: isValidAudioFile_def type_of_file_eq max_bytes dec_25)

lemma isValidAudioFile_bad_type:
  "\<not> isAllowed (toLowerCase (file_type f)) \<Longrightarrow>
   isValidAudioFile f
     = NotOk (''Invalid file type: '' @ (if file_type f = [] then ''unknown'' else file_type f)
              @ ''. Use audio files (e.g. MP3, WAV, WebM).'')"
  by (simp add: isValidAudioFile_def type_of_file_eq)

lemma allowed_video:
  "isAllowed ''video/mp4''" "isAllowed ''video/webm''" "isAllowed ''video/ogg''"
  by code_simp+

lemma lower_video:
  "toLowerCase ''video/mp4'' = ''video/mp4''"
  "toLowerCase ''video/webm'' = ''video/webm''"
  "toLowerCase ''video/ogg'' = ''video/ogg''"
  by code_simp+

lemma uploadFile_rejects_other_types:
  assumes "\<not> startsWith (toLowerCase (file_type f)) ''audio/''"
    and "\<not> (\<exists>tok \<in> set audio_tokens. includes_str (toLowerCase (file_type f)) tok)"
  shows "uploadFile api f post_result get_result s
         = (s\<lparr>error := Some (''Invalid file type: ''
                              @ (if file_type f = [] then ''unknown'' else file_type f)
                              @ ''. Use audio files (e.g. MP3, WAV, WebM).'')\<rparr>, [])"
proof -
  have "\<not> isAllowed (toLowerCase (file_type f))"
    using assms by (simp add: isAllowed_tokens)
  then show ?thesis
    by (intro uploadFile_rejected isValidAudioFile_bad_type)
qed

section \<open>Rename and remove: what a call computes\<close>

lemma dropWhile_all_iff: "(\<forall>x \<in> set (dropWhile P xs). P x) \<longleftrightarrow> (\<forall>x \<in> set xs. P x)"
proof
  assume a: "\<forall>x \<in> set (dropWhile P xs). P x"
  have "dropWhile P xs = []"
  proof (rule ccontr)
    assume n: "dropWhile P xs \<noteq> []"
    then have "\<not> P (hd (dropWhile P xs))" by (rule hd_dropWhile)
    moreover have "hd (dropWhile P xs) \<in> set (dropWhile P xs)" using n by simp
    ultimately show False using a by blast
  qed
  then show "\<forall>x \<in> set xs. P x" by (simp add: dropWhile_eq_Nil_conv)
next
  assume "\<forall>x \<in> set xs. P x"
  then have "dropWhile P xs = []" by (simp add: dropWhile_eq_Nil_conv)
  then show "\<forall>x \<in> set (dropWhile P xs). P x" by (simp only: list.set ball_empty)
qed

lemma trim_empty_iff: "trim s = [] \<longleftrightarrow> (\<forall>c \<in> set s. is_white_space c)"
proof -
  have "trim s = [] \<longleftrightarrow> (\<forall>c \<in> set (rev (dropWhile is_white_space s)). is_white_space c)"
    by (simp add: trim_def dropWhile_eq_Nil_conv)
  also have "\<dots> \<longleftrightarrow> (\<forall>c \<in> set s. is_white_space c)"
    by (simp add: dropWhile_all_iff)
  finally show ?thesis .
qed

lemma updateName_ok:
  assumes "trim newName \<noteq> []" and "ok res"
  shows "updateName api ident newName (Resolves res) s
         = (s\<lparr>error := None,
               uploads := map (\<lambda>u. if id_item u = ident
                                     then u\<lparr>originalName := trim newName\<rparr> else u) (uploads s),
               editingId := None, editingName := ''''\<rparr>,
            [Fetch PATCH (api @ ''/api/uploads/'' @ ident)
               [(''Content-Type'', ''application/json'')]
               (JSON_stringify [(''originalName'', trim newName)])])"
  using assms by (simp add: updateName_def Let_def checked_ok)

lemma deleteUpload_ok:
  assumes "ok res"
  shows "deleteUpload api ident (Resolves res) s
         = (s\<lparr>deletingId := None, error := None,
               uploads := filter (\<lambda>u. id_item u \<noteq> ident) (uploads s)\<rparr>,
            [Fetch DELETE (api @ ''/api/uploads/'' @ ident) [] NoBody])"
  using assms by (simp add: deleteUpload_def Let_def checked_ok)

lemma trim_Interview: "trim ''  Interview '' = ''Interview''"
  by code_simp

section \<open>What a failed request leaves behind\<close>

lemma caught_message:
  assumes "request_fails r"
  shows "\<exists>e. checked g r = Inl e \<and> message_or e fb = failure_text g fb r"
proof (cases r)
  case (Rejects e)
  then show ?thesis by (cases e) (simp_all add: checked_def)
next
  case (Resolves res)
  with assms have "\<not> ok res" by simp
  with Resolves show ?thesis
    by (cases "json_error res") (simp_all add: checked_def)
qed

lemma fetchUploads_fails:
  assumes "request_fails r"
  shows "fst (fetchUploads api r s)
         = s\<lparr>isLoadingList := False,
              error := Some (failure_text ''Failed to fetch'' ''Failed to fetch uploads'' r)\<rparr>"
proof -
  obtain e where "checked ''Failed to fetch'' r = Inl e"
    and "message_or e ''Failed to fetch uploads''
         = failure_text ''Failed to fetch'' ''Failed to fetch uploads'' r"
    using caught_message [OF assms] by blast
  then show ?thesis by (simp add: fetchUploads_def Let_def)
qed

lemma App_fetchUploads_fails:
  assumes "request_fails r"
  shows "fst (App_fetchUploads r s)
         = s\<lparr>isLoadingList := False, error := Some (App_failure_text r)\<rparr>"
proof (cases r)
  case (Rejects e)
  then show ?thesis by (cases e) (simp_all add: App_fetchUploads_def Let_def)
next
  case (Resolves res)
  with assms have "\<not> ok res" by simp
  with Resolves show ?thesis by (simp add: App_fetchUploads_def Let_def)
qed

lemma failure_text_not_empty:
  assumes "g \<noteq> []" and "fb \<noteq> []" and "r \<noteq> Rejects (Error [])"
  shows "failure_text g fb r \<noteq> []"
proof (cases r)
  case (Rejects e)
  with assms show ?thesis by (cases e) simp_all
next
  case (Resolves res)
  with assms(1) show ?thesis by (cases "json_error res") simp_all
qed

lemma App_failure_text_not_empty:
  assumes "r \<noteq> Rejects (Error [])"
  shows "App_failure_text r \<noteq> []"
proof (cases r)
  case (Rejects e)
  with assms show ?thesis by (cases e) simp_all
next
  case (Resolves res)
  then show ?thesis by simp
qed

lemma fetchUploads_succeeds:
  assumes "ok res" and "json_items res = Inr data"
  shows "fst (fetchUploads api (Resolves res) s)
         = s\<lparr>isLoadingList := False, error := None, uploads := data\<rparr>"
    and "fst (App_fetchUploads (Resolves res) s)
         = s\<lparr>isLoadingList := False, error := None, uploads := data\<rparr>"
  using assms by (simp_all add: fetchUploads_def App_fetchUploads_def Let_def checked_ok)

lemma fetchUploads_changes_only_on_success:
  assumes "uploads (fst (fetchUploads api r s)) \<noteq> uploads s
           \<or> uploads (fst (App_fetchUploads r s)) \<noteq> uploads s"
  shows "\<exists>res data. r = Resolves res \<and> ok res \<and> json_items res = Inr data"
proof (cases r)
  case (Rejects e)
  with assms show ?thesis
    by (simp add: fetchUploads_def App_fetchUploads_def Let_def checked_Rejects)
next
  case (Resolves res)
  show ?thesis
  proof (cases "ok res")
    case False
    with Resolves assms show ?thesis
      by (simp add: fetchUploads_def App_fetchUploads_def Let_def checked_not_ok)
  next
    case True
    show ?thesis
    proof (cases "json_items res")
      case (Inl e)
      with True Resolves assms show ?thesis
        by (simp add: fetchUploads_def App_fetchUploads_def Let_def checked_ok)
    next
      case (Inr data)
      with True Resolves show ?thesis by simp
    qed
  qed
qed

lemma uploadFile_fails:
  assumes "isValidAudioFile f = Ok" and "request_fails r"
  shows "fst (uploadFile api f r g s)
         = s\<lparr>isUploading := False,
              error := Some (failure_text ''Upload failed'' ''Upload failed'' r)\<rparr>"
proof -
  obtain e where "checked ''Upload failed'' r = Inl e"
    and "message_or e ''Upload failed'' = failure_text ''Upload failed'' ''Upload failed'' r"
    using caught_message [OF assms(2)] by blast
  then show ?thesis using assms(1) by (simp add: uploadFile_def Let_def)
qed

lemma updateName_fails:
  assumes "trim newName \<noteq> []" and "request_fails r"
  shows "fst (updateName api ident newName r s)
         = s\<lparr>error := Some (failure_text ''Update failed'' ''Failed to update name'' r)\<rparr>"
proof -
  obtain e where "checked ''Update failed'' r = Inl e"
    and "message_or e ''Failed to update name''
         = failure_text ''Update failed'' ''Failed to update name'' r"
    using caught_message [OF assms(2)] by blast
  then show ?thesis using assms(1) by (simp add: updateName_def Let_def)
qed

lemma deleteUpload_fails:
  assumes "request_fails r"
  shows "fst (deleteUpload api ident r s)
         = s\<lparr>deletingId := None,
              error := Some (failure_text ''Delete failed'' ''Failed to delete'' r)\<rparr>"
proof -
  obtain e where "checked ''Delete failed'' r = Inl e"
    and "message_or e ''Failed to delete'' = failure_text ''Delete failed'' ''Failed to delete'' r"
    using caught_message [OF assms] by blast
  then show ?thesis by (simp add: deleteUpload_def Let_def)
qed

lemma dec_500: "dec 500 = ''500''"
  by (simp add: dec.simps digit_char_def)

lemma valid_small_wav_file: "isValidAudioFile small_wav_file = Ok"
  by (simp add: isValidAudioFile_def small_wav_file_def type_of_file_eq lower_audio_wav
      allowed_audio_wav max_bytes)

section \<open>Evaluating \<open>formatBytes\<close>\<close>

lemma ln_1024_pos: "0 < ln (1024::real)"
  by simp

lemma idx_1024: "\<lfloor>ln (1024::real) / ln 1024\<rfloor> = 1"
  using ln_1024_pos by simp

lemma idx_1536: "\<lfloor>ln (1536::real) / ln 1024\<rfloor> = 1"
proof -
  have lo: "ln (1024::real) \<le> ln 1536" by simp
  have "ln (1536::real) < ln 1048576" by simp
  also have "ln (1048576::real) = 2 * ln 1024" using ln_realpow [of "1024::real" 2] by simp
  finally have hi: "ln (1536::real) < 2 * ln 1024" .
  have "1 \<le> ln (1536::real) / ln 1024" using lo ln_1024_pos by (simp add: le_divide_eq)
  moreover have "ln (1536::real) / ln 1024 < 2" using hi ln_1024_pos by (simp add: divide_less_eq)
  ultimately show ?thesis by (simp add: floor_unique)
qed

lemma dec_10: "dec 10 = ''10''"
  by (simp add: dec.simps digit_char_def)

lemma dec_15: "dec 15 = ''15''"
  by (simp add: dec.simps digit_char_def)

lemma toFixed_1: "toFixed ts 1 (Suc 0) = ''1.0''"
  by (simp add: toFixed_def Let_def dec_10)

lemma toFixed_3_2: "toFixed ts (3 / 2) (Suc 0) = ''1.5''"
proof -
  have "\<lfloor>(3::real) / 2 * 10 + 1 / 2\<rfloor> = 15" by (simp add: floor_unique)
  then show ?thesis by (simp add: toFixed_def Let_def dec_15)
qed

lemma formatBytes_1024: "formatBytes ts (Finite 1024) = ''1.0 KB''"
  by (simp add: formatBytes_def Let_def idx_1024 toFixed_1 at_index_def)

lemma formatBytes_1536: "formatBytes ts (Finite 1536) = ''1.5 KB''"
proof -
  have "(1536::real) / 1024 = 3 / 2" by simp
  then show ?thesis
    by (simp add: formatBytes_def Let_def idx_1536 toFixed_3_2 at_index_def)
qed

section \<open>The file that \<open>onstop\<close> stores\<close>

lemma onstop_recordedFile:
  "recordedFile (fst (onstop closure_url chunks mime now new_url r s))
     = Some (new_File r [new_Blob chunks (or_else (Some mime) ''audio/webm'')]
               (''recording-'' @ show_int now @ ''.''
                @ ext_of_type (blob_type (new_Blob chunks (or_else (Some mime) ''audio/webm''))))
               (blob_type (new_Blob chunks (or_else (Some mime) ''audio/webm''))))"
  by (simp add: onstop_def Let_def)

lemma App_onstop_recordedFile:
  "recordedFile (fst (App_onstop chunks mime now new_url r s))
     = Some (new_File r [new_Blob chunks (or_else (Some mime) ''audio/webm'')]
               (''recording-'' @ show_int now @ ''.''
                @ ext_of_type (blob_type (new_Blob chunks (or_else (Some mime) ''audio/webm''))))
               (blob_type (new_Blob chunks (or_else (Some mime) ''audio/webm''))))"
  by (simp add: App_onstop_def Let_def)

lemma ext_of_type_sublist:
  "ext_of_type ty
     = (if sublist ''ogg'' ty then ''ogg'' else if sublist ''wav'' ty then ''wav'' else ''webm'')"
  by (simp only: ext_of_type_def includes_str_sublist)

lemma show_int_now: "show_int 1700000000000 = ''1700000000000''"
  by (simp add: show_int_def dec.simps digit_char_def)

lemma blob_type_opus:
  "blob_type (new_Blob [] ''audio/ogg; codecs=opus'') = ''audio/ogg; codecs=opus''"
  by code_simp

lemma sublist_opus: "sublist ''ogg'' ''audio/ogg; codecs=opus''"
  unfolding includes_str_sublist [symmetric] by code_simp

section \<open>Claims about the local validation of an upload\<close>

text \<open>
  Claim C1: for every file whose reported MIME type does not start with \<open>audio/\<close> and
  does not contain any of the known audio subtype tokens (webm, mp3, mpeg, wav, ogg,
  mp4, x-wav, flac), \<open>uploadFile\<close> rejects the file locally with a message that names
  the reported type (or \<open>unknown\<close> when it is empty) and issues no network request: it
  has no effect at all, so no \<open>fetch\<close> is performed, and the state it leaves is the one
  it started from except for the error banner, so \<open>isUploading\<close> stays as it was and
  the uploads list is unchanged. The reported type is in lower case, as the File API
  reports it.
\<close>

theorem C1_non_audio_type_rejected_locally:
  assumes "lower_case_type f"
    and "\<not> startsWith (file_type f) ''audio/''"
    and "\<not> (\<exists>tok \<in> set audio_tokens. includes_str (file_type f) tok)"
  shows "uploadFile api f post_result get_result s
         = (s\<lparr>error := Some (''Invalid file type: ''
                              @ (if file_type f = [] then ''unknown'' else file_type f)
                              @ ''. Use audio files (e.g. MP3, WAV, WebM).'')\<rparr>, [])"
proof -
  have l: "toLowerCase (file_type f) = file_type f"
    using assms(1) by (simp add: lower_case_type_def)
  show ?thesis
    by (rule uploadFile_rejects_other_types) (simp_all only: l assms(2,3) not_False_eq_True)
qed

theorem C1_non_audio_type_rejected_locally_witness:
  "lower_case_type text_file
   \<and> \<not> startsWith (file_type text_file) ''audio/''
   \<and> \<not> list_ex (includes_str (file_type text_file)) audio_tokens
   \<and> uploadFile ''http://localhost:4000'' text_file created (listed []) initial_state
       = (initial_state\<lparr>error :=
            Some ''Invalid file type: text/plain. Use audio files (e.g. MP3, WAV, WebM).''\<rparr>, [])"
proof -
  have c: "file_type text_file = ''text/plain''"
    by (simp add: text_file_def)
  have w: "lower_case_type text_file"
    by (simp add: lower_case_type_def c lower_text_plain)
  have a: "\<not> startsWith (file_type text_file) ''audio/''"
    unfolding c by code_simp
  have b: "\<not> list_ex (includes_str (file_type text_file)) audio_tokens"
    unfolding c by code_simp
  have b': "\<not> (\<exists>tok \<in> set audio_tokens. includes_str (file_type text_file) tok)"
    using b by (simp add: list_ex_iff)
  have "uploadFile ''http://localhost:4000'' text_file created (listed []) initial_state
       = (initial_state\<lparr>error :=
            Some ''Invalid file type: text/plain. Use audio files (e.g. MP3, WAV, WebM).''\<rparr>, [])"
    using C1_non_audio_type_rejected_locally
        [OF w a b', of "''http://localhost:4000''" created "listed []" initial_state]
    by (simp add: c)
  then show ?thesis using w a b by blast
qed

text \<open>
  Claim C2, as stated, fails: the type is tested before the size, so a file of 30 MB
  whose type is \<open>text/plain\<close> is rejected with the message about its type, which
  does not mention the ceiling.
\<close>

theorem C2_oversized_text_file_gets_type_message:
  "file_size big_text_file > 25 * 1024 * 1024
   \<and> uploadFile ''http://localhost:4000'' big_text_file created (listed []) initial_state
       = (initial_state\<lparr>error :=
            Some ''Invalid file type: text/plain. Use audio files (e.g. MP3, WAV, WebM).''\<rparr>, [])
   \<and> \<not> includes_str ''Invalid file type: text/plain. Use audio files (e.g. MP3, WAV, WebM).'' ''25''"
proof -
  have a: "file_size big_text_file > 25 * 1024 * 1024"
    by (simp add: big_text_file_def)
  have t: "file_type big_text_file = ''text/plain''"
    by (simp add: big_text_file_def)
  have "isValidAudioFile big_text_file
        = NotOk ''Invalid file type: text/plain. Use audio files (e.g. MP3, WAV, WebM).''"
    using isValidAudioFile_bad_type [of big_text_file]
    by (simp add: t lower_text_plain not_allowed_text_plain)
  then have b: "uploadFile ''http://localhost:4000'' big_text_file created (listed []) initial_state
       = (initial_state\<lparr>error :=
            Some ''Invalid file type: text/plain. Use audio files (e.g. MP3, WAV, WebM).''\<rparr>, [])"
    by (rule uploadFile_rejected)
  have c: "\<not> includes_str ''Invalid file type: text/plain. Use audio files (e.g. MP3, WAV, WebM).'' ''25''"
    by code_simp
  show ?thesis using a b c by simp
qed

text \<open>
  Claim C2, amended: for every file whose size exceeds the ceiling of 25 MB
  (25 * 1024 * 1024 bytes), \<open>uploadFile\<close> rejects the file locally and has no effect
  (no POST request); the state is as before except for the error banner. The banner is
  the size-specific message \<open>File too large. Max 25 MB.\<close> when the type of the file
  passes the type test (in lower case it starts with \<open>audio/\<close> or contains a known
  token), and the message about the type otherwise.
\<close>

theorem C2_oversized_rejected_locally:
  assumes "file_size f > 25 * 1024 * 1024"
  shows "uploadFile api f post_result get_result s
         = (s\<lparr>error :=
               Some (if startsWith (toLowerCase (file_type f)) ''audio/''
                        \<or> (\<exists>tok \<in> set audio_tokens. includes_str (toLowerCase (file_type f)) tok)
                     then ''File too large. Max 25 MB.''
                     else ''Invalid file type: ''
                          @ (if file_type f = [] then ''unknown'' else file_type f)
                          @ ''. Use audio files (e.g. MP3, WAV, WebM).'')\<rparr>, [])"
proof (cases "isAllowed (toLowerCase (file_type f))")
  case True
  then have "isValidAudioFile f = NotOk ''File too large. Max 25 MB.''"
    using assms by (rule isValidAudioFile_too_large)
  then have "uploadFile api f post_result get_result s
             = (s\<lparr>error := Some ''File too large. Max 25 MB.''\<rparr>, [])"
    by (rule uploadFile_rejected)
  with True show ?thesis by (simp add: isAllowed_tokens)
next
  case False
  then have "uploadFile api f post_result get_result s
             = (s\<lparr>error := Some (''Invalid file type: ''
                          @ (if file_type f = [] then ''unknown'' else file_type f)
                          @ ''. Use audio files (e.g. MP3, WAV, WebM).'')\<rparr>, [])"
    by (intro uploadFile_rejected isValidAudioFile_bad_type)
  with False show ?thesis by (simp add: isAllowed_tokens)
qed

theorem C2_oversized_rejected_locally_witness:
  "file_size big_wav_file > 25 * 1024 * 1024
   \<and> uploadFile ''http://localhost:4000'' big_wav_file created (listed []) initial_state
       = (initial_state\<lparr>error := Some ''File too large. Max 25 MB.''\<rparr>, [])"
proof -
  have a: "file_size big_wav_file > 25 * 1024 * 1024"
    by (simp add: big_wav_file_def)
  have t: "file_type big_wav_file = ''audio/wav''"
    by (simp add: big_wav_file_def)
  have w: "startsWith ''audio/wav'' ''audio/''"
    by code_simp
  show ?thesis
    using a C2_oversized_rejected_locally
        [OF a, of "''http://localhost:4000''" created "listed []" initial_state]
    by (simp add: t lower_audio_wav w del: startsWith.simps)
qed

section \<open>Claims about rename and remove\<close>

text \<open>
  Claim C3: calling \<open>updateName\<close> with a name that is empty or consists only of white
  space is a no-op: it has no effect (no network call) and returns the state it was
  given, so the uploads list, the editing state and the error banner are unchanged.
\<close>

theorem C3_rename_blank_is_noop:
  assumes "\<forall>c \<in> set newName. is_white_space c"
  shows "updateName api ident newName r s = (s, [])"
proof -
  have "trim newName = []" using assms by (simp add: trim_empty_iff)
  then show ?thesis by (simp add: updateName_def)
qed

theorem C3_rename_blank_is_noop_witness:
  "list_all is_white_space ''   ''
   \<and> updateName ''http://localhost:4000'' ''a1'' ''   '' no_content two_items = (two_items, [])
   \<and> updateName ''http://localhost:4000'' ''a1'' '''' no_content two_items = (two_items, [])"
proof -
  have a: "list_all is_white_space ''   ''" by code_simp
  then have b: "\<forall>c \<in> set ''   ''. is_white_space c" by (simp add: list_all_iff)
  have c: "\<forall>c \<in> set ''''. is_white_space c" by simp
  show ?thesis
    using a
      C3_rename_blank_is_noop [OF b, of "''http://localhost:4000''" "''a1''" no_content two_items]
      C3_rename_blank_is_noop [OF c, of "''http://localhost:4000''" "''a1''" no_content two_items]
    by simp
qed

text \<open>
  Claim C4: after a successful rename (a name that is not blank, a response with a 2xx
  status), every record whose id is the given id has \<open>originalName\<close> equal to the
  trimmed new name and its other fields unchanged, every other record is unchanged, and
  the list keeps its length and order: position by position the new list is the old one
  patched. The only request is the PATCH; the list is not fetched again.
\<close>

theorem C4_rename_patches_one_record:
  assumes "trim newName \<noteq> []" and "ok res"
  shows "uploads (fst (updateName api ident newName (Resolves res) s))
           = map (\<lambda>u. if id_item u = ident then u\<lparr>originalName := trim newName\<rparr> else u)
               (uploads s)
         \<and> length (uploads (fst (updateName api ident newName (Resolves res) s)))
             = length (uploads s)
         \<and> (\<forall>i < length (uploads s).
               uploads (fst (updateName api ident newName (Resolves res) s)) ! i
                 = (if id_item (uploads s ! i) = ident
                    then (uploads s ! i)\<lparr>originalName := trim newName\<rparr>
                    else uploads s ! i))
         \<and> snd (updateName api ident newName (Resolves res) s)
             = [Fetch PATCH (api @ ''/api/uploads/'' @ ident)
                  [(''Content-Type'', ''application/json'')]
                  (JSON_stringify [(''originalName'', trim newName)])]"
  by (simp add: updateName_ok [OF assms])

theorem C4_rename_patches_one_record_witness:
  "trim ''  Interview '' \<noteq> []
   \<and> ok \<lparr>status = 200, json_error = None, json_items = Inr []\<rparr>
   \<and> uploads (fst (updateName ''http://localhost:4000'' ''a1'' ''  Interview '' no_content two_items))
       = [item_a\<lparr>originalName := ''Interview''\<rparr>, item_b]"
proof -
  have a: "trim ''  Interview '' \<noteq> []" by (simp add: trim_Interview)
  have b: "ok \<lparr>status = 200, json_error = None, json_items = Inr []\<rparr>" by (simp add: ok_def)
  have c: "id_item item_a = ''a1''" "id_item item_b = ''b2''" "uploads two_items = [item_a, item_b]"
    by (simp_all add: item_a_def item_b_def two_items_def)
  show ?thesis
    using a b C4_rename_patches_one_record [OF a b, of "''http://localhost:4000''" "''a1''" two_items]
    by (simp add: no_content_def c trim_Interview)
qed

text \<open>
  Claim C5: after a successful remove (a response with a 2xx status) of an id that
  exactly one record of the list has, no record with that id remains, the length of the
  list has decreased by exactly one, and the remaining records keep their relative
  order: the new list is the old one without that record, a subsequence of it.
\<close>

theorem C5_remove_drops_the_record:
  assumes "ok res"
    and "length (filter (\<lambda>u. id_item u = ident) (uploads s)) = 1"
  shows "(\<forall>u \<in> set (uploads (fst (deleteUpload api ident (Resolves res) s))). id_item u \<noteq> ident)
         \<and> length (uploads (fst (deleteUpload api ident (Resolves res) s))) + 1
             = length (uploads s)
         \<and> uploads (fst (deleteUpload api ident (Resolves res) s))
             = filter (\<lambda>u. id_item u \<noteq> ident) (uploads s)
         \<and> subseq (uploads (fst (deleteUpload api ident (Resolves res) s))) (uploads s)"
proof -
  have e: "uploads (fst (deleteUpload api ident (Resolves res) s))
           = filter (\<lambda>u. id_item u \<noteq> ident) (uploads s)"
    by (simp add: deleteUpload_ok [OF assms(1)])
  have "length (filter (\<lambda>u. id_item u = ident) (uploads s))
        + length (filter (\<lambda>u. \<not> id_item u = ident) (uploads s)) = length (uploads s)"
    by (rule sum_length_filter_compl)
  then have l: "length (filter (\<lambda>u. id_item u \<noteq> ident) (uploads s)) + 1 = length (uploads s)"
    using assms(2) by simp
  have n: "\<forall>u \<in> set (filter (\<lambda>u. id_item u \<noteq> ident) (uploads s)). id_item u \<noteq> ident"
    by simp
  have q: "subseq (filter (\<lambda>u. id_item u \<noteq> ident) (uploads s)) (uploads s)"
    by (rule subseq_filter_left)
  show ?thesis unfolding e by (intro conjI n l q refl)
qed

theorem C5_remove_drops_the_record_witness:
  "ok \<lparr>status = 200, json_error = None, json_items = Inr []\<rparr>
   \<and> length (filter (\<lambda>u. id_item u = ''a1'') (uploads two_items)) = 1
   \<and> uploads (fst (deleteUpload ''http://localhost:4000'' ''a1'' no_content two_items)) = [item_b]"
proof -
  have b: "ok \<lparr>status = 200, json_error = None, json_items = Inr []\<rparr>" by (simp add: ok_def)
  have c: "id_item item_a = ''a1''" "id_item item_b = ''b2''" "uploads two_items = [item_a, item_b]"
    by (simp_all add: item_a_def item_b_def two_items_def)
  have d: "length (filter (\<lambda>u. id_item u = ''a1'') (uploads two_items)) = 1"
    by (simp add: c)
  have "uploads (fst (deleteUpload ''http://localhost:4000'' ''a1'' no_content two_items))
        = filter (\<lambda>u. id_item u \<noteq> ''a1'') (uploads two_items)"
    unfolding no_content_def
    using C5_remove_drops_the_record [OF b d, of "''http://localhost:4000''"] by blast
  then have "uploads (fst (deleteUpload ''http://localhost:4000'' ''a1'' no_content two_items))
        = [item_b]"
    by (simp add: c)
  then show ?thesis using b d by blast
qed

section \<open>Claims about failures\<close>

text \<open>
  Claim C6: when \<open>fetchUploads\<close> fails (the \<open>fetch\<close> throws or the response status is
  not 2xx), an error message is surfaced and the uploads list held before is left
  untouched. The banner is set to the text of the failure, and the view shows a banner
  that is not empty: the text is not empty unless what was thrown is an \<open>Error\<close> with
  an empty message, which the \<open>fetch\<close> of a browser does not produce. The list is
  replaced by the received one when the request succeeds, and it changes only then.
  This holds for the \<open>fetchUploads\<close> of both components.
\<close>

theorem C6_failed_list_keeps_uploads:
  "(request_fails r \<longrightarrow>
      error (fst (fetchUploads api r s))
        = Some (failure_text ''Failed to fetch'' ''Failed to fetch uploads'' r)
      \<and> error (fst (App_fetchUploads r s)) = Some (App_failure_text r)
      \<and> (r \<noteq> Rejects (Error []) \<longrightarrow>
           (\<exists>m. m \<noteq> [] \<and> error (fst (fetchUploads api r s)) = Some m)
           \<and> (\<exists>m. m \<noteq> [] \<and> error (fst (App_fetchUploads r s)) = Some m))
      \<and> uploads (fst (fetchUploads api r s)) = uploads s
      \<and> uploads (fst (App_fetchUploads r s)) = uploads s)
   \<and> (ok res \<and> json_items res = Inr data \<longrightarrow>
      uploads (fst (fetchUploads api (Resolves res) s)) = data
      \<and> uploads (fst (App_fetchUploads (Resolves res) s)) = data)
   \<and> (uploads (fst (fetchUploads api r s)) \<noteq> uploads s
        \<or> uploads (fst (App_fetchUploads r s)) \<noteq> uploads s \<longrightarrow>
      (\<exists>res' data'. r = Resolves res' \<and> ok res' \<and> json_items res' = Inr data'))"
proof (intro conjI impI)
  assume f: "request_fails r"
  show e1: "error (fst (fetchUploads api r s))
        = Some (failure_text ''Failed to fetch'' ''Failed to fetch uploads'' r)"
    by (simp add: fetchUploads_fails [OF f])
  show e2: "error (fst (App_fetchUploads r s)) = Some (App_failure_text r)"
    by (simp add: App_fetchUploads_fails [OF f])
  show "uploads (fst (fetchUploads api r s)) = uploads s"
    by (simp add: fetchUploads_fails [OF f])
  show "uploads (fst (App_fetchUploads r s)) = uploads s"
    by (simp add: App_fetchUploads_fails [OF f])
  assume n: "r \<noteq> Rejects (Error [])"
  have "failure_text ''Failed to fetch'' ''Failed to fetch uploads'' r \<noteq> []"
    by (rule failure_text_not_empty [OF _ _ n]) simp_all
  with e1 show "\<exists>m. m \<noteq> [] \<and> error (fst (fetchUploads api r s)) = Some m" by blast
  have "App_failure_text r \<noteq> []"
    by (rule App_failure_text_not_empty [OF n])
  with e2 show "\<exists>m. m \<noteq> [] \<and> error (fst (App_fetchUploads r s)) = Some m" by blast
next
  assume a: "ok res \<and> json_items res = Inr data"
  show "uploads (fst (fetchUploads api (Resolves res) s)) = data"
    using a by (simp add: fetchUploads_succeeds(1))
  show "uploads (fst (App_fetchUploads (Resolves res) s)) = data"
    using a by (simp add: fetchUploads_succeeds(2))
next
  assume "uploads (fst (fetchUploads api r s)) \<noteq> uploads s
          \<or> uploads (fst (App_fetchUploads r s)) \<noteq> uploads s"
  then show "\<exists>res' data'. r = Resolves res' \<and> ok res' \<and> json_items res' = Inr data'"
    by (rule fetchUploads_changes_only_on_success)
qed

theorem C6_failed_list_keeps_uploads_witness:
  "request_fails network_down
   \<and> network_down \<noteq> Rejects (Error [])
   \<and> error (fst (fetchUploads ''http://localhost:4000'' network_down two_items))
       = Some ''NetworkError when attempting to fetch resource.''
   \<and> error (fst (App_fetchUploads network_down two_items))
       = Some ''NetworkError when attempting to fetch resource.''
   \<and> uploads (fst (fetchUploads ''http://localhost:4000'' network_down two_items))
       = [item_a, item_b]
   \<and> uploads (fst (App_fetchUploads network_down two_items)) = [item_a, item_b]
   \<and> uploads (fst (fetchUploads ''http://localhost:4000'' (listed [item_b]) two_items))
       = [item_b]"
proof -
  have f: "request_fails network_down" by (simp add: network_down_def)
  have n: "network_down \<noteq> Rejects (Error [])" by (simp add: network_down_def)
  have o: "ok \<lparr>status = 200, json_error = None, json_items = Inr [item_b]\<rparr>
           \<and> json_items \<lparr>status = 200, json_error = None, json_items = Inr [item_b]\<rparr>
               = Inr [item_b]"
    by (simp add: ok_def)
  have u: "uploads two_items = [item_a, item_b]" by (simp add: two_items_def)
  have x: "failure_text g fb network_down = ''NetworkError when attempting to fetch resource.''"
    for g fb by (simp add: network_down_def)
  have y: "App_failure_text network_down = ''NetworkError when attempting to fetch resource.''"
    by (simp add: network_down_def)
  have 1: "error (fst (fetchUploads ''http://localhost:4000'' network_down two_items))
           = Some ''NetworkError when attempting to fetch resource.''"
    and 2: "error (fst (App_fetchUploads network_down two_items))
           = Some ''NetworkError when attempting to fetch resource.''"
    and 3: "uploads (fst (fetchUploads ''http://localhost:4000'' network_down two_items))
            = uploads two_items"
    and 4: "uploads (fst (App_fetchUploads network_down two_items)) = uploads two_items"
    using f C6_failed_list_keeps_uploads
        [of network_down "''http://localhost:4000''" two_items]
    unfolding x y by blast+
  have 5: "uploads (fst (fetchUploads ''http://localhost:4000'' (listed [item_b]) two_items))
           = [item_b]"
    unfolding listed_def
    using o C6_failed_list_keeps_uploads
        [of _ "''http://localhost:4000''" two_items
            "\<lparr>status = 200, json_error = None, json_items = Inr [item_b]\<rparr>" "[item_b]"]
    by blast
  show ?thesis using f n 1 2 3 4 5 unfolding u by blast
qed

text \<open>
  Claim C8, as stated, fails. When the \<open>fetch\<close> itself throws there is no response and
  no status: the banner is the message of the thrown error, here a text without a
  single digit. And a body whose \<open>error\<close> field is the empty string does not supply the
  banner: the generic message with the status is stored.
\<close>

theorem C8_banner_without_status:
  "request_fails network_down
   \<and> error (fst (deleteUpload ''http://localhost:4000'' ''a1'' network_down two_items))
       = Some ''NetworkError when attempting to fetch resource.''
   \<and> digits_in ''NetworkError when attempting to fetch resource.'' = []
   \<and> request_fails (server_error (Some ''''))
   \<and> error (fst (deleteUpload ''http://localhost:4000'' ''a1'' (server_error (Some '''')) two_items))
       = Some ''Delete failed (500)''"
proof -
  have a: "request_fails network_down" by (simp add: network_down_def)
  have b: "request_fails (server_error (Some ''''))" by (simp add: server_error_def ok_def)
  have c: "digits_in ''NetworkError when attempting to fetch resource.'' = []"
    by (simp add: digits_in_def)
  have d: "error (fst (deleteUpload ''http://localhost:4000'' ''a1'' network_down two_items))
           = Some ''NetworkError when attempting to fetch resource.''"
    by (simp add: deleteUpload_fails [OF a]) (simp add: network_down_def)
  have e: "error (fst (deleteUpload ''http://localhost:4000'' ''a1'' (server_error (Some ''''))
                        two_items)) = Some ''Delete failed (500)''"
    by (simp add: deleteUpload_fails [OF b]) (simp add: server_error_def dec_500)
  show ?thesis using a b c d e by blast
qed

text \<open>
  Claim C8, amended: for every failing network operation (list, upload of a file that
  passes the local validation, rename to a name that is not blank, remove) the banner
  is set, whatever it held before, to: the backend-supplied \<open>error\<close> text when the
  response has a status that is not 2xx and its body has a non-empty \<open>error\<close> field;
  the generic message of the operation followed by the numeric HTTP status in brackets
  when such a response has no \<open>error\<close> field or an empty one; the message of the
  thrown error when the \<open>fetch\<close> throws, or the fixed text of the operation when what
  is thrown is not an \<open>Error\<close>. This is \<open>failure_text\<close>.
\<close>

theorem C8_failure_banner:
  assumes "request_fails r"
  shows "error (fst (fetchUploads api r s))
           = Some (failure_text ''Failed to fetch'' ''Failed to fetch uploads'' r)
         \<and> (isValidAudioFile f = Ok \<longrightarrow>
              error (fst (uploadFile api f r get_result s))
                = Some (failure_text ''Upload failed'' ''Upload failed'' r))
         \<and> (trim newName \<noteq> [] \<longrightarrow>
              error (fst (updateName api ident newName r s))
                = Some (failure_text ''Update failed'' ''Failed to update name'' r))
         \<and> error (fst (deleteUpload api ident r s))
             = Some (failure_text ''Delete failed'' ''Failed to delete'' r)"
proof (intro conjI impI)
  show "error (fst (fetchUploads api r s))
        = Some (failure_text ''Failed to fetch'' ''Failed to fetch uploads'' r)"
    by (simp add: fetchUploads_fails [OF assms])
  show "error (fst (deleteUpload api ident r s))
        = Some (failure_text ''Delete failed'' ''Failed to delete'' r)"
    by (simp add: deleteUpload_fails [OF assms])
next
  assume v: "isValidAudioFile f = Ok"
  show "error (fst (uploadFile api f r get_result s))
        = Some (failure_text ''Upload failed'' ''Upload failed'' r)"
    by (simp add: uploadFile_fails [OF v assms])
next
  assume t: "trim newName \<noteq> []"
  show "error (fst (updateName api ident newName r s))
        = Some (failure_text ''Update failed'' ''Failed to update name'' r)"
    by (simp add: updateName_fails [OF t assms])
qed

theorem C8_failure_banner_witness:
  "request_fails (server_error (Some ''Upload not found''))
   \<and> isValidAudioFile small_wav_file = Ok
   \<and> trim ''  Interview '' \<noteq> []
   \<and> error (fst (fetchUploads ''http://localhost:4000'' (server_error (Some ''Upload not found''))
                    two_items)) = Some ''Upload not found''
   \<and> error (fst (uploadFile ''http://localhost:4000'' small_wav_file
                    (server_error (Some ''Upload not found'')) (listed []) two_items))
       = Some ''Upload not found''
   \<and> error (fst (updateName ''http://localhost:4000'' ''a1'' ''  Interview ''
                    (server_error (Some ''Upload not found'')) two_items))
       = Some ''Upload not found''
   \<and> error (fst (deleteUpload ''http://localhost:4000'' ''a1''
                    (server_error (Some ''Upload not found'')) two_items))
       = Some ''Upload not found''
   \<and> request_fails (server_error None)
   \<and> error (fst (deleteUpload ''http://localhost:4000'' ''a1'' (server_error None) two_items))
       = Some ''Delete failed (500)''"
proof -
  have a: "request_fails (server_error (Some ''Upload not found''))"
    by (simp add: server_error_def ok_def)
  have b: "request_fails (server_error None)"
    by (simp add: server_error_def ok_def)
  have t: "trim ''  Interview '' \<noteq> []" by (simp add: trim_Interview)
  have x: "failure_text g fb (server_error (Some ''Upload not found'')) = ''Upload not found''"
    for g fb by (simp add: server_error_def)
  have y: "failure_text ''Delete failed'' fb (server_error None) = ''Delete failed (500)''"
    for fb by (simp add: server_error_def dec_500)
  show ?thesis
    using a b t valid_small_wav_file
      C8_failure_banner [OF a, of "''http://localhost:4000''" two_items small_wav_file
        "listed []" "''  Interview ''" "''a1''"]
      C8_failure_banner [OF b, of "''http://localhost:4000''" two_items small_wav_file
        "listed []" "''  Interview ''" "''a1''"]
    unfolding x y by blast
qed

section \<open>Claim about \<open>formatBytes\<close>\<close>

text \<open>
  Claim C7: \<open>formatBytes(0)\<close> and \<open>formatBytes\<close> of any non-finite or negative input
  return \<open>0 B\<close>; \<open>formatBytes(1024)\<close> returns a value in KB units, namely \<open>1.0 KB\<close>;
  \<open>formatBytes(1536)\<close> returns \<open>1.5 KB\<close>. The first part rests on the guard alone. In
  the other two the exact arithmetic of the model and that of doubles agree: the
  quotient of the logarithms is 1 and about 1.06, floored to 1, and 1024 / 1024 and
  1536 / 1024 are the doubles 1 and 1.5.
\<close>

theorem C7_formatBytes:
  "formatBytes ts (Finite 0) = ''0 B''
   \<and> formatBytes ts NaN = ''0 B''
   \<and> formatBytes ts PosInfinity = ''0 B''
   \<and> formatBytes ts NegInfinity = ''0 B''
   \<and> (x < 0 \<longrightarrow> formatBytes ts (Finite x) = ''0 B'')
   \<and> formatBytes ts (Finite 1024) = ''1.0 KB''
   \<and> formatBytes ts (Finite 1536) = ''1.5 KB''"
  by (simp add: formatBytes_1024 formatBytes_1536) (simp add: formatBytes_def)

theorem C7_formatBytes_witness:
  "(-1::real) < 0 \<and> formatBytes (\<lambda>x. ''1e+21'') (Finite (-1)) = ''0 B''
   \<and> formatBytes (\<lambda>x. ''1e+21'') (Finite 1536) = ''1.5 KB''"
  using C7_formatBytes [of "\<lambda>x. ''1e+21''" "-1"] by simp

section \<open>Claim about the recorded file\<close>

text \<open>
  Claim C9: when a recording is stopped, the handler of either component stores a file
  whose name is \<open>recording-<timestamp>.<ext>\<close>, where the timestamp is \<open>Date.now()\<close>
  and the extension comes from the type of the finalized blob: \<open>ogg\<close> if the type
  contains \<open>ogg\<close>, otherwise \<open>wav\<close> if it contains \<open>wav\<close>, otherwise \<open>webm\<close>. The
  blob is built with \<open>recorder.mimeType\<close>, or with \<open>audio/webm\<close> when that is empty.
\<close>

theorem C9_recording_file_name:
  "\<exists>f. recordedFile (fst (onstop closure_url chunks mime now new_url r s)) = Some f
       \<and> recordedFile (fst (App_onstop chunks mime now new_url r s)) = Some f
       \<and> file_name f
           = ''recording-'' @ show_int now @ ''.''
             @ (if sublist ''ogg'' (blob_type (new_Blob chunks (if mime = [] then ''audio/webm'' else mime)))
                then ''ogg''
                else if sublist ''wav'' (blob_type (new_Blob chunks (if mime = [] then ''audio/webm'' else mime)))
                then ''wav'' else ''webm'')"
  by (simp add: onstop_recordedFile App_onstop_recordedFile ext_of_type_sublist new_File_def)

theorem C9_recording_file_name_witness:
  "map_option file_name
     (recordedFile (fst (onstop None [] ''audio/ogg; codecs=opus'' 1700000000000
                           ''blob:http://localhost:5173/0b1c'' 7 initial_state)))
   = Some ''recording-1700000000000.ogg''"
  using C9_recording_file_name [of None "[]" "''audio/ogg; codecs=opus''" 1700000000000
      "''blob:http://localhost:5173/0b1c''" 7 initial_state]
  by (auto simp: blob_type_opus sublist_opus show_int_now)

section \<open>Claim about types that are not audio\<close>

text \<open>
  Claim C10: there are files whose MIME type does not indicate audio and that the
  validator accepts. The token test is a substring test on the type in lower case, so
  every file of type \<open>video/mp4\<close>, \<open>video/webm\<close> or \<open>video/ogg\<close> that is not
  larger than the ceiling passes \<open>isValidAudioFile\<close>, and \<open>uploadFile\<close> posts it to
  the backend.
\<close>

theorem C10_video_types_pass_validation:
  assumes "file_type f \<in> {''video/mp4'', ''video/webm'', ''video/ogg''}"
    and "file_size f \<le> MAX_FILE_SIZE_BYTES"
  shows "\<not> startsWith (file_type f) ''audio/''
         \<and> isValidAudioFile f = Ok
         \<and> (\<exists>rest. snd (uploadFile api f post_result get_result s)
               = Fetch POST (api @ ''/api/uploads'') [] (FormData [(''audio'', f)]) # rest)"
proof -
  have v: "isValidAudioFile f = Ok"
    using assms by (auto simp: isValidAudioFile_def type_of_file_eq lower_video allowed_video)
  have n: "\<not> startsWith (file_type f) ''audio/''"
    using assms(1) by auto
  show ?thesis
    using v n uploadFile_accepted [OF v] by blast
qed

theorem C10_video_types_pass_validation_witness:
  "\<not> startsWith ''video/mp4'' ''audio/''
   \<and> isValidAudioFile (video_file ''video/mp4'') = Ok
   \<and> hd (snd (uploadFile ''http://localhost:4000'' (video_file ''video/mp4'') created (listed [])
               initial_state))
       = Fetch POST ''http://localhost:4000/api/uploads'' []
           (FormData [(''audio'', video_file ''video/mp4'')])"
proof -
  have a: "file_type (video_file ''video/mp4'') \<in> {''video/mp4'', ''video/webm'', ''video/ogg''}"
    by (simp add: video_file_def)
  have b: "file_size (video_file ''video/mp4'') \<le> MAX_FILE_SIZE_BYTES"
    by (simp add: video_file_def max_bytes)
  have t: "file_type (video_file ''video/mp4'') = ''video/mp4''"
    by (simp add: video_file_def)
  show ?thesis
    using C10_video_types_pass_validation
        [OF a b, of "''http://localhost:4000''" created "listed []" initial_state]
    unfolding t by auto
qed

end
